theory Spec2Isabelle
  imports Complex_Main "HOL-Library.Sublist"
begin

section \<open>Shared conventions\<close>

text \<open>
  The analysers of PhoenixStrategyAnalyzer read one column of the trade table at a time.
  A column is modelled as a list, one entry per trade in table order; Python and numpy
  floats are modelled as exact reals, so rounding, NaN and overflow are outside the model.
  Where the source raises, the model returns the exception as a value.
\<close>

datatype py_error = ValueError | OverflowError | ZeroDivisionError | AttributeError

section \<open>Time-series analyzer: streaks (timeseries.py)\<close>

text \<open>
  \<^verbatim>\<open>_get_max_consecutive\<close>: the \<^verbatim>\<open>for item in condition\<close> loop with its two
  counters \<^verbatim>\<open>max_count\<close> and \<^verbatim>\<open>current_count\<close>.
\<close>

fun max_consecutive_loop :: "bool list \<Rightarrow> nat \<Rightarrow> nat \<Rightarrow> nat" where
  "max_consecutive_loop [] max_count current_count = max_count"
| "max_consecutive_loop (item # rest) max_count current_count =
     (if item
      then max_consecutive_loop rest (max max_count (current_count + 1)) (current_count + 1)
      else max_consecutive_loop rest max_count 0)"

definition get_max_consecutive :: "bool list \<Rightarrow> nat" where
  "get_max_consecutive condition =
     (if length condition = 0 then 0 else max_consecutive_loop condition 0 0)"

text \<open>
  \<^verbatim>\<open>_get_all_consecutive_lengths\<close>: the lengths of all maximal runs, in order; the
  trailing run is appended after the loop.
\<close>

fun all_consecutive_lengths_loop :: "bool list \<Rightarrow> nat list \<Rightarrow> nat \<Rightarrow> nat list" where
  "all_consecutive_lengths_loop [] lengths current_count =
     (if current_count > 0 then lengths @ [current_count] else lengths)"
| "all_consecutive_lengths_loop (item # rest) lengths current_count =
     (if item then all_consecutive_lengths_loop rest lengths (current_count + 1)
      else all_consecutive_lengths_loop rest
             (if current_count > 0 then lengths @ [current_count] else lengths) 0)"

definition get_all_consecutive_lengths :: "bool list \<Rightarrow> nat list" where
  "get_all_consecutive_lengths condition = all_consecutive_lengths_loop condition [] 0"

definition calculate_psychological_pressure :: "nat \<Rightarrow> nat \<Rightarrow> real" where
  "calculate_psychological_pressure max_consec_losses total_trades =
     (if total_trades = 0 then 0
      else min (real max_consec_losses / real total_trades * 100) 100)"

definition np_mean_nat :: "nat list \<Rightarrow> real" where
  "np_mean_nat xs = real (sum_list xs) / real (length xs)"

record consecutive_stats =
  max_consecutive_wins :: nat
  max_consecutive_losses :: nat
  avg_consecutive_wins :: real
  avg_consecutive_losses :: real
  psychological_pressure :: real
  psychological_pressure_score :: real

definition analyze_consecutive_trades :: "real list \<Rightarrow> consecutive_stats" where
  "analyze_consecutive_trades trades_list =
     (let is_win = map (\<lambda>r. r > 0) trades_list;
          is_loss = map (\<lambda>r. r \<le> 0) trades_list;
          max_wins = get_max_consecutive is_win;
          max_losses = get_max_consecutive is_loss;
          wins_lengths = get_all_consecutive_lengths is_win;
          losses_lengths = get_all_consecutive_lengths is_loss
      in \<lparr> max_consecutive_wins = max_wins,
           max_consecutive_losses = max_losses,
           avg_consecutive_wins = (if wins_lengths \<noteq> [] then np_mean_nat wins_lengths else 0),
           avg_consecutive_losses = (if losses_lengths \<noteq> [] then np_mean_nat losses_lengths else 0),
           psychological_pressure = real max_losses,
           psychological_pressure_score =
             calculate_psychological_pressure max_losses (length trades_list) \<rparr>)"

text \<open>
  What "a run of \<open>k\<close> consecutive trades satisfying the condition" means, independently of
  the loop: \<open>k\<close> copies of \<open>True\<close> occur contiguously in the condition array.
\<close>

definition has_run :: "bool list \<Rightarrow> nat \<Rightarrow> bool" where
  "has_run condition k = sublist (replicate k True) condition"

section \<open>Walk-forward split (walk_forward.py)\<close>

text \<open>Python's \<^verbatim>\<open>int(x)\<close> on a float truncates toward zero.\<close>

definition py_int :: "real \<Rightarrow> int" where
  "py_int x = (if 0 \<le> x then \<lfloor>x\<rfloor> else \<lceil>x\<rceil>)"






section \<open>Extreme-scenario simulator: capital shortage (extreme_scenario.py)\<close>



text \<open>\<^verbatim>\<open>.min()\<close> and \<^verbatim>\<open>.max()\<close> of a non-empty array \<open>x # xs\<close>.\<close>

definition np_min1 :: "real \<Rightarrow> real list \<Rightarrow> real" where
  "np_min1 x xs = fold min xs x"







section \<open>Trade characteristics analyzer: classification (trade_analysis.py)\<close>

text \<open>
  numpy's boolean-mask operations on a column: \<^verbatim>\<open>mask.sum()\<close> counts the selected
  entries, \<^verbatim>\<open>returns[mask]\<close> keeps them, \<^verbatim>\<open>.mean()\<close> averages them.
\<close>

definition mask_sum :: "bool list \<Rightarrow> nat" where
  "mask_sum msk = length (filter (\<lambda>b. b) msk)"

definition mask_select :: "real list \<Rightarrow> bool list \<Rightarrow> real list" where
  "mask_select values msk = map fst (filter snd (zip values msk))"

definition np_mean :: "real list \<Rightarrow> real" where
  "np_mean xs = sum_list xs / real (length xs)"

record bucket =
  count :: nat
  ratio :: real
  avg_return :: real

definition bucket_stats :: "real list \<Rightarrow> bool list \<Rightarrow> nat \<Rightarrow> bucket" where
  "bucket_stats returns msk population =
     \<lparr> count = mask_sum msk,
       ratio = real (mask_sum msk) / real population,
       avg_return = (if mask_sum msk > 0 then np_mean (mask_select returns msk) else 0) \<rparr>"

text \<open>The band conditions of \<^verbatim>\<open>classify_trades\<close>, for one entry of the column.\<close>

definition tiny_profit :: "real \<Rightarrow> bool" where "tiny_profit r \<longleftrightarrow> r > 0 \<and> r \<le> 1"
definition small_profit :: "real \<Rightarrow> bool" where "small_profit r \<longleftrightarrow> r > 1 \<and> r \<le> 3"
definition medium_profit :: "real \<Rightarrow> bool" where "medium_profit r \<longleftrightarrow> r > 3 \<and> r \<le> 10"
definition large_profit :: "real \<Rightarrow> bool" where "large_profit r \<longleftrightarrow> r > 10"
definition tiny_loss :: "real \<Rightarrow> bool" where "tiny_loss r \<longleftrightarrow> r < 0 \<and> r \<ge> -1"
definition small_loss :: "real \<Rightarrow> bool" where "small_loss r \<longleftrightarrow> r < -1 \<and> r \<ge> -3"
definition large_loss :: "real \<Rightarrow> bool" where "large_loss r \<longleftrightarrow> r < -3"

definition scalp :: "real \<Rightarrow> bool" where "scalp h \<longleftrightarrow> h < 1"
definition short_term :: "real \<Rightarrow> bool" where "short_term h \<longleftrightarrow> h \<ge> 1 \<and> h < 24"
definition medium_term :: "real \<Rightarrow> bool" where "medium_term h \<longleftrightarrow> h \<ge> 24 \<and> h < 168"
definition long_term :: "real \<Rightarrow> bool" where "long_term h \<longleftrightarrow> h \<ge> 168"

definition size_bands :: "(real \<Rightarrow> bool) list" where
  "size_bands =
     [tiny_profit, small_profit, medium_profit, large_profit, tiny_loss, small_loss, large_loss]"

definition holding_bands :: "(real \<Rightarrow> bool) list" where
  "holding_bands = [scalp, short_term, medium_term, long_term]"

text \<open>In how many bands of an axis one value falls.\<close>

definition bands_hit :: "(real \<Rightarrow> bool) list \<Rightarrow> real \<Rightarrow> nat" where
  "bands_hit bands v = length (filter (\<lambda>band. band v) bands)"

record size_classification =
  tiny_profit_0_1 :: bucket
  small_profit_1_3 :: bucket
  medium_profit_3_10 :: bucket
  large_profit_10_plus :: bucket
  tiny_loss_0_1 :: bucket
  small_loss_1_3 :: bucket
  large_loss_3_plus :: bucket

record holding_classification =
  scalp_lt1h :: bucket
  short_1h_24h :: bucket
  medium_1d_7d :: bucket
  long_7d_plus :: bucket

text \<open>
  \<open>holding_classification_out\<close> is \<open>None\<close> for the empty dictionary that the source
  returns when the table has no \<^verbatim>\<open>holding_hours\<close> column.
\<close>

record classification =
  size_classification_out :: size_classification
  holding_classification_out :: "holding_classification option"

text \<open>
  \<^verbatim>\<open>classify_trades\<close> on the \<^verbatim>\<open>return_pct\<close> column and the optional
  \<^verbatim>\<open>holding_hours\<close> column (of the same table, so of the same length).
\<close>

definition classify_trades :: "real list \<Rightarrow> real list option \<Rightarrow> classification" where
  "classify_trades returns holding_hours =
     (let n = length returns;
          size_cls =
            \<lparr> tiny_profit_0_1 = bucket_stats returns (map tiny_profit returns) n,
              small_profit_1_3 = bucket_stats returns (map small_profit returns) n,
              medium_profit_3_10 = bucket_stats returns (map medium_profit returns) n,
              large_profit_10_plus = bucket_stats returns (map large_profit returns) n,
              tiny_loss_0_1 = bucket_stats returns (map tiny_loss returns) n,
              small_loss_1_3 = bucket_stats returns (map small_loss returns) n,
              large_loss_3_plus = bucket_stats returns (map large_loss returns) n \<rparr>;
          holding_cls =
            (case holding_hours of
               None \<Rightarrow> None
             | Some holding \<Rightarrow>
                 Some \<lparr> scalp_lt1h = bucket_stats returns (map scalp holding) (length holding),
                        short_1h_24h = bucket_stats returns (map short_term holding) (length holding),
                        medium_1d_7d = bucket_stats returns (map medium_term holding) (length holding),
                        long_7d_plus = bucket_stats returns (map long_term holding) (length holding) \<rparr>)
      in \<lparr> size_classification_out = size_cls, holding_classification_out = holding_cls \<rparr>)"

definition size_count_total :: "size_classification \<Rightarrow> nat" where
  "size_count_total c =
     count (tiny_profit_0_1 c) + count (small_profit_1_3 c) + count (medium_profit_3_10 c)
     + count (large_profit_10_plus c) + count (tiny_loss_0_1 c) + count (small_loss_1_3 c)
     + count (large_loss_3_plus c)"

definition holding_count_total :: "holding_classification \<Rightarrow> nat" where
  "holding_count_total c =
     count (scalp_lt1h c) + count (short_1h_24h c) + count (medium_1d_7d c)
     + count (long_7d_plus c)"

section \<open>Position sizing analyzer: Kelly criterion (position_sizing.py)\<close>

definition calculate_required_trades_for_kelly :: "real \<Rightarrow> real" where
  "calculate_required_trades_for_kelly win_rate_in =
     (let min_trades = 30;
          adjustment = \<bar>win_rate_in - 0.5\<bar> * 20
      in max min_trades (min_trades - adjustment))"

datatype feasibility = Feasible | NotEnoughTrades

record kelly_stats =
  full_kelly_pct :: real
  fractional_kelly_pct :: real
  recommended_kelly_pct :: real
  kelly_win_rate :: real
  kelly_loss_rate :: real
  kelly_avg_win :: real
  kelly_avg_loss :: real
  win_loss_ratio :: real
  kelly_total_trades :: nat
  kelly_required_trades :: int
  kelly_feasibility :: feasibility

text \<open>
  \<^verbatim>\<open>calculate_kelly\<close> on the \<^verbatim>\<open>return_pct\<close> column. The constructor stores the
  column divided by 100 and the method multiplies it by 100 again. \<open>required\<close> is always
  finite, so \<^verbatim>\<open>int(required_trades)\<close> does not raise.
\<close>

definition calculate_kelly :: "real list \<Rightarrow> kelly_stats" where
  "calculate_kelly return_pct =
     (let self_returns = map (\<lambda>r. r / 100) return_pct;
          returns = map (\<lambda>r. r * 100) self_returns;
          wins = filter (\<lambda>r. r > 0) returns;
          losses = filter (\<lambda>r. r < 0) returns;
          win_rate = (if length returns > 0 then real (length wins) / real (length returns) else 0);
          loss_rate = (if length returns > 0 then real (length losses) / real (length returns) else 0);
          avg_win = (if length wins > 0 then np_mean wins else 0);
          avg_loss = (if length losses > 0 then \<bar>np_mean losses\<bar> else 0);
          kelly_pct =
            (if avg_loss > 0
             then (let b = avg_win / avg_loss
                   in if b > 0 then (win_rate * b - loss_rate) / b else 0)
             else 0);
          fractional_kelly = kelly_pct / 2;
          required_trades = calculate_required_trades_for_kelly win_rate
      in \<lparr> full_kelly_pct = max 0 (kelly_pct * 100),
           fractional_kelly_pct = max 0 (fractional_kelly * 100),
           recommended_kelly_pct = max 0 (fractional_kelly * 100),
           kelly_win_rate = win_rate * 100,
           kelly_loss_rate = loss_rate * 100,
           kelly_avg_win = avg_win,
           kelly_avg_loss = avg_loss,
           win_loss_ratio = (if avg_loss > 0 then avg_win / avg_loss else 0),
           kelly_total_trades = length returns,
           kelly_required_trades = py_int required_trades,
           kelly_feasibility =
             (if real (length returns) \<ge> required_trades then Feasible else NotEnoughTrades) \<rparr>)"

text \<open>
  The Kelly percentages as the specification words them: \<open>b = mean_win / mean_|loss|\<close>,
  \<open>f = (p * b - q) / b\<close> with \<open>p\<close> the win rate and \<open>q = 1 - p\<close>; the full Kelly is \<open>f\<close>
  and the recommended value is half of it, both as percentages.
\<close>

definition spec_full_kelly_pct :: "real list \<Rightarrow> real" where
  "spec_full_kelly_pct return_pct =
     (let p = real (length (filter (\<lambda>r. r > 0) return_pct)) / real (length return_pct);
          q = 1 - p;
          b = np_mean (filter (\<lambda>r. r > 0) return_pct)
              / np_mean (map abs (filter (\<lambda>r. r < 0) return_pct))
      in (p * b - q) / b * 100)"

definition spec_recommended_kelly_pct :: "real list \<Rightarrow> real" where
  "spec_recommended_kelly_pct return_pct = spec_full_kelly_pct return_pct / 2"

section \<open>Statistical test battery: win-rate significance (statistics.py)\<close>

text \<open>
  Two functions of \<^verbatim>\<open>scipy.stats\<close> are used and are not part of the repository:
  \<^verbatim>\<open>norm.ppf\<close> (the standard normal quantile) and \<^verbatim>\<open>binom.sf\<close>. They are parameters
  of the model, named \<open>norm_ppf\<close> and \<open>binom_sf\<close>.

  The win rate is a numpy float whenever the table is non-empty, and numpy's float division
  does not raise on a zero divisor: it yields an infinity or NaN. These special values decide
  what \<^verbatim>\<open>_calculate_required_sample_size\<close> returns, so its result type has them.
\<close>

datatype npfloat = Finite real | PosInf | NegInf | NaN

definition np_true_divide :: "real \<Rightarrow> real \<Rightarrow> npfloat" where
  "np_true_divide a b =
     (if b \<noteq> 0 then Finite (a / b)
      else if a > 0 then PosInf
      else if a < 0 then NegInf
      else NaN)"

text \<open>Python's \<^verbatim>\<open>max(0, n)\<close>: the second argument wins only if \<^verbatim>\<open>n > 0\<close> is true.\<close>

fun py_max0 :: "npfloat \<Rightarrow> npfloat" where
  "py_max0 (Finite x) = (if x > 0 then Finite x else Finite 0)"
| "py_max0 PosInf = PosInf"
| "py_max0 NegInf = Finite 0"
| "py_max0 NaN = Finite 0"

text \<open>Python's \<^verbatim>\<open>int(x)\<close> on a float: it raises on an infinity and on NaN.\<close>

fun py_int_float :: "npfloat \<Rightarrow> py_error + int" where
  "py_int_float (Finite x) = Inr (py_int x)"
| "py_int_float PosInf = Inl OverflowError"
| "py_int_float NegInf = Inl OverflowError"
| "py_int_float NaN = Inl ValueError"

text \<open>
  \<^verbatim>\<open>_wilson_ci\<close>. With \<open>n = 0\<close> the term \<^verbatim>\<open>p_hat * (1 - p_hat) / n\<close> divides the
  Python integer 0 by the Python integer 0 and raises.
\<close>

definition wilson_ci :: "(real \<Rightarrow> real) \<Rightarrow> nat \<Rightarrow> nat \<Rightarrow> real \<Rightarrow> py_error + (real \<times> real)" where
  "wilson_ci norm_ppf wins n confidence_level =
     (if n = 0 then Inl ZeroDivisionError
      else
        (let p_hat = real wins / real n;
             z = norm_ppf ((1 + confidence_level) / 2);
             denominator = 1 + z\<^sup>2 / real n;
             center = (p_hat + z\<^sup>2 / (2 * real n)) / denominator;
             spread = z * sqrt (p_hat * (1 - p_hat) / real n + z\<^sup>2 / (4 * (real n)\<^sup>2))
                      / denominator
         in Inr (max 0 (center - spread), min 1 (center + spread))))"

definition calculate_required_sample_size ::
    "(real \<Rightarrow> real) \<Rightarrow> real \<Rightarrow> real \<Rightarrow> real \<Rightarrow> real \<Rightarrow> npfloat" where
  "calculate_required_sample_size norm_ppf p1 p2 alpha beta =
     (let z_alpha = norm_ppf (1 - alpha / 2);
          z_beta = norm_ppf (1 - beta);
          p_pool = (p1 + p2) / 2;
          n = np_true_divide ((z_alpha + z_beta)\<^sup>2 * (2 * p_pool * (1 - p_pool))) ((p1 - p2)\<^sup>2)
      in py_max0 n)"

datatype confidence_assessment = VeryHigh | High | Medium | Low

definition assess_confidence :: "real \<Rightarrow> confidence_assessment" where
  "assess_confidence p =
     (if p < 0.001 then VeryHigh else if p < 0.01 then High else if p < 0.05 then Medium else Low)"

record win_rate_stats =
  wr_observed_win_rate :: real
  wr_observed_win_rate_pct :: real
  wr_wins :: nat
  wr_losses :: nat
  wr_total_trades :: nat
  wr_p_value :: real
  wr_p_value_significant :: bool
  wr_confidence_level :: real
  wr_confidence_interval_lower :: real
  wr_confidence_interval_upper :: real
  wr_ci_range_pct :: real
  wr_z_score :: real
  wr_confidence_assessment :: confidence_assessment
  wr_required_trades_for_significance :: int

text \<open>
  \<^verbatim>\<open>test_win_rate_confidence\<close> on the \<^verbatim>\<open>return_pct\<close> column. The two places that can
  raise are the call of \<^verbatim>\<open>_wilson_ci\<close> and the conversion
  \<^verbatim>\<open>int(required_trades)\<close> while the result dictionary is built.
\<close>

definition test_win_rate_confidence ::
    "(real \<Rightarrow> real) \<Rightarrow> (int \<Rightarrow> nat \<Rightarrow> real \<Rightarrow> real) \<Rightarrow> real list \<Rightarrow> real
       \<Rightarrow> py_error + win_rate_stats" where
  "test_win_rate_confidence norm_ppf binom_sf returns confidence_level =
     (let n_trades = length returns;
          wins = length (filter (\<lambda>r. r > 0) returns);
          losses = length (filter (\<lambda>r. r \<le> 0) returns);
          win_rate = (if n_trades > 0 then real wins / real n_trades else 0);
          p_value = binom_sf (int wins - 1) n_trades 0.5 * 2
      in case wilson_ci norm_ppf wins n_trades confidence_level of
           Inl e \<Rightarrow> Inl e
         | Inr (ci_lower, ci_upper) \<Rightarrow>
             (let p_null = 0.5;
                  std_error = sqrt (p_null * (1 - p_null) / real n_trades);
                  z_score = (if std_error > 0 then (win_rate - p_null) / std_error else 0);
                  required_trades = calculate_required_sample_size norm_ppf win_rate 0.5 0.05 0.20
              in case py_int_float required_trades of
                   Inl e \<Rightarrow> Inl e
                 | Inr required_int \<Rightarrow>
                     Inr \<lparr> wr_observed_win_rate = win_rate,
                           wr_observed_win_rate_pct = win_rate * 100,
                           wr_wins = wins,
                           wr_losses = losses,
                           wr_total_trades = n_trades,
                           wr_p_value = p_value,
                           wr_p_value_significant = (p_value < 0.05),
                           wr_confidence_level = confidence_level,
                           wr_confidence_interval_lower = ci_lower,
                           wr_confidence_interval_upper = ci_upper,
                           wr_ci_range_pct = (ci_upper - ci_lower) * 100,
                           wr_z_score = z_score,
                           wr_confidence_assessment = assess_confidence p_value,
                           wr_required_trades_for_significance = required_int \<rparr>))"

section \<open>Comprehensive evaluator (comprehensive.py)\<close>

subsection \<open>The validator results the evaluator reads\<close>

text \<open>
  \<^verbatim>\<open>validator_results\<close> is a dictionary of category dictionaries, each holding the
  result dictionaries of its analyses. The evaluator reads a few keys of it, each behind a
  membership test or with \<^verbatim>\<open>.get(key, default)\<close>. Every key it reads is a field of type
  \<open>option\<close> here: \<open>None\<close> is an absent key. A category whose analyzer raised is stored as the
  empty dictionary, that is, with every analysis absent. Infinite and NaN values are outside
  the model.
\<close>

definition get_or :: "'a option \<Rightarrow> 'a \<Rightarrow> 'a" where
  "get_or entry default_value = (case entry of None \<Rightarrow> default_value | Some v \<Rightarrow> v)"

record monthly_dict =
  negative_months :: "int option"
  monthly_consistency :: "real option"

record consecutive_dict =
  dict_max_consecutive_losses :: "int option"

record timeseries_results =
  key_1_1_monthly :: "monthly_dict option"
  key_1_2_consecutive :: "consecutive_dict option"

record win_rate_dict =
  p_value :: "real option"

record statistics_results =
  key_2_1_win_rate :: "win_rate_dict option"

record losing_trades_dict =
  dict_avg_return :: "real option"

record win_loss_dict =
  losing_trades :: "losing_trades_dict option"
  risk_reward_ratio :: "real option"
  profit_factor :: "real option"

record trade_analysis_results =
  key_3_1_win_loss_comparison :: "win_loss_dict option"

record shortage_dict =
  dict_survived :: "bool option"
  dict_margin_of_safety :: "real option"

text \<open>
  Of the bootstrap result only the list of resample means is kept; the other bootstrap
  statistics are computed from it.
\<close>

record extreme_scenario_results =
  key_4_4_capital_shortage :: "shortage_dict option"
  key_5_2_bootstrap :: "real list option"

record risk_adjusted_dict =
  sharpe_ratio :: "real option"

record position_sizing_results =
  key_7_3_risk_adjusted :: "risk_adjusted_dict option"

record profit_slope_dict =
  r_squared :: "real option"

record advanced_stats_results =
  key_8_1_profit_slope :: "profit_slope_dict option"

record validator_results =
  timeseries :: "timeseries_results option"
  statistics :: "statistics_results option"
  trade_analysis :: "trade_analysis_results option"
  extreme_scenario :: "extreme_scenario_results option"
  position_sizing :: "position_sizing_results option"
  advanced_stats :: "advanced_stats_results option"

text \<open>
  The membership tests \<^verbatim>\<open>'cat' in validator_results and 'key' in validator_results['cat']\<close>:
  \<open>lookup cat key\<close> is the analysis result when both hold.
\<close>

definition lookup :: "'c option \<Rightarrow> ('c \<Rightarrow> 'd option) \<Rightarrow> 'd option" where
  "lookup category key = (case category of None \<Rightarrow> None | Some c \<Rightarrow> key c)"

subsection \<open>Verdict and score records\<close>

datatype status = NoGo | GoConditional | GoStrong

datatype tier = Tier1 | Tier2 | Tier3 | AllClear

text \<open>
  The reason strings, one constructor per message of the source, carrying the value the
  message formats.
\<close>

datatype reason =
    TradesBelow30 nat
  | WinRateBelow50 real
  | DrawdownBeyond50 real
  | PeriodBelow6Months int
  | PValueNotSignificant real
  | SharpeBelow1 real
  | ConsecutiveLossesAtLeast7 int
  | AvgLossAbove3 real
  | DailyTradesAbove1 real
  | MonthlyTradesBelow2 real
  | WinLossRatioBelow1_5 real
  | NegativeMonthsAtLeast5 int
  | MonthlyDeviationAbove200 real

text \<open>The tier list to which the source appends each message.\<close>

fun reason_tier :: "reason \<Rightarrow> tier" where
  "reason_tier (TradesBelow30 _) = Tier1"
| "reason_tier (WinRateBelow50 _) = Tier1"
| "reason_tier (DrawdownBeyond50 _) = Tier1"
| "reason_tier (PeriodBelow6Months _) = Tier1"
| "reason_tier (PValueNotSignificant _) = Tier2"
| "reason_tier (SharpeBelow1 _) = Tier2"
| "reason_tier (ConsecutiveLossesAtLeast7 _) = Tier2"
| "reason_tier (AvgLossAbove3 _) = Tier2"
| "reason_tier (DailyTradesAbove1 _) = Tier3"
| "reason_tier (MonthlyTradesBelow2 _) = Tier3"
| "reason_tier (WinLossRatioBelow1_5 _) = Tier3"
| "reason_tier (NegativeMonthsAtLeast5 _) = Tier3"
| "reason_tier (MonthlyDeviationAbove200 _) = Tier3"

record disqualification =
  dq_status :: status
  dq_tier :: tier
  dq_reasons :: "reason list"
  dq_total_trades :: nat
  dq_win_rate :: real
  dq_max_drawdown :: real
  dq_trading_period_days :: int

record scores =
  score_backtest :: real
  score_walk_forward :: real
  score_timeseries :: real
  score_statistics :: real
  score_trade :: real
  score_extreme :: real
  score_position :: real
  score_advanced :: real

datatype rating = Excellent | Good | Fair | NeedsImprovement

text \<open>\<open>fs_timestamp\<close> is the reading of \<^verbatim>\<open>datetime.now()\<close>, a point in time.\<close>

record final_score =
  fs_scores :: scores
  fs_final_score :: real
  fs_rating :: rating
  fs_timestamp :: real

subsection \<open>The evaluator object\<close>

text \<open>
  The attributes set by \<^verbatim>\<open>__init__\<close>, and the three attributes that exist only after the
  corresponding step has run (\<open>None\<close> before). \<open>ev_cumulative_pct\<close> is the optional cumulative
  profit column of the table. Dates are points in time measured in days.
\<close>

record evaluator =
  ev_return_pct :: "real list"
  ev_cumulative_pct :: "real list option"
  ev_start_date :: real
  ev_end_date :: real
  ev_initial_capital :: real
  ev_total_days :: int
  ev_total_trades :: nat
  ev_win_rate :: real
  ev_total_return :: real
  ev_trading_days :: int
  ev_validator_results :: "validator_results option"
  ev_disqualification :: "disqualification option"
  ev_final_score :: "final_score option"

definition evaluator_init ::
    "real list \<Rightarrow> real list option \<Rightarrow> real list option \<Rightarrow> real \<Rightarrow> real \<Rightarrow> real \<Rightarrow> evaluator" where
  "evaluator_init return_pct cumulative_pct exit_date start_date end_date initial_capital =
     (let total_days = \<lfloor>end_date - start_date\<rfloor>
      in \<lparr> ev_return_pct = return_pct,
           ev_cumulative_pct = cumulative_pct,
           ev_start_date = start_date,
           ev_end_date = end_date,
           ev_initial_capital = initial_capital,
           ev_total_days = total_days,
           ev_total_trades = length return_pct,
           ev_win_rate =
             (if length return_pct > 0
              then real (length (filter (\<lambda>r. r > 0) return_pct)) / real (length return_pct)
              else 0),
           ev_total_return = sum_list return_pct,
           ev_trading_days =
             (case exit_date of Some dates \<Rightarrow> int (card (set dates)) | None \<Rightarrow> total_days),
           ev_validator_results = None,
           ev_disqualification = None,
           ev_final_score = None \<rparr>)"

subsection \<open>Disqualification criteria\<close>

fun cumprod_from :: "real \<Rightarrow> real list \<Rightarrow> real list" where
  "cumprod_from acc [] = []"
| "cumprod_from acc (x # xs) = (acc * x) # cumprod_from (acc * x) xs"

definition np_cumprod :: "real list \<Rightarrow> real list" where
  "np_cumprod xs = cumprod_from 1 xs"

fun maximum_accumulate_from :: "real \<Rightarrow> real list \<Rightarrow> real list" where
  "maximum_accumulate_from m [] = []"
| "maximum_accumulate_from m (x # xs) = max m x # maximum_accumulate_from (max m x) xs"

fun np_maximum_accumulate :: "real list \<Rightarrow> real list" where
  "np_maximum_accumulate [] = []"
| "np_maximum_accumulate (x # xs) = x # maximum_accumulate_from x xs"

text \<open>\<^verbatim>\<open>.min()\<close> of an array: numpy raises ValueError on an empty one.\<close>

fun np_min :: "real list \<Rightarrow> py_error + real" where
  "np_min [] = Inl ValueError"
| "np_min (x # xs) = Inr (np_min1 x xs)"

definition capital_curve :: "evaluator \<Rightarrow> real list" where
  "capital_curve self =
     (case ev_cumulative_pct self of
        Some cumulative_pct \<Rightarrow> map (\<lambda>c. ev_initial_capital self * (1 + c / 100)) cumulative_pct
      | None \<Rightarrow>
          map (\<lambda>c. ev_initial_capital self * c)
            (np_cumprod (map (\<lambda>r. 1 + r / 100) (ev_return_pct self))))"

definition drawdown_series :: "real list \<Rightarrow> real list" where
  "drawdown_series curve =
     map (\<lambda>(c, running_max). if running_max > 0 then (c - running_max) / running_max else 0)
       (zip curve (np_maximum_accumulate curve))"

definition max_drawdown :: "evaluator \<Rightarrow> py_error + real" where
  "max_drawdown self = np_min (drawdown_series (capital_curve self))"

definition tier1_reasons :: "evaluator \<Rightarrow> real \<Rightarrow> reason list" where
  "tier1_reasons self max_dd =
     (if ev_total_trades self < 30 then [TradesBelow30 (ev_total_trades self)] else [])
     @ (if ev_win_rate self < 0.5 then [WinRateBelow50 (ev_win_rate self * 100)] else [])
     @ (if max_dd < - 0.5 then [DrawdownBeyond50 (max_dd * 100)] else [])
     @ (if ev_total_days self < 180 then [PeriodBelow6Months (ev_total_days self)] else [])"

definition tier2_reasons :: "validator_results \<Rightarrow> reason list" where
  "tier2_reasons vr =
     (case lookup (statistics vr) key_2_1_win_rate of
        None \<Rightarrow> []
      | Some d \<Rightarrow> (let p = get_or (p_value d) 0
                  in if p \<ge> 0.05 then [PValueNotSignificant p] else []))
     @ (case lookup (position_sizing vr) key_7_3_risk_adjusted of
          None \<Rightarrow> []
        | Some d \<Rightarrow> (let sharpe = get_or (sharpe_ratio d) 0
                    in if sharpe < 1.0 then [SharpeBelow1 sharpe] else []))
     @ (case lookup (timeseries vr) key_1_2_consecutive of
          None \<Rightarrow> []
        | Some d \<Rightarrow> (let max_consec_loss = get_or (dict_max_consecutive_losses d) 0
                    in if max_consec_loss \<ge> 7
                       then [ConsecutiveLossesAtLeast7 max_consec_loss] else []))
     @ (case lookup (trade_analysis vr) key_3_1_win_loss_comparison of
          None \<Rightarrow> []
        | Some trade_data \<Rightarrow>
            (case losing_trades trade_data of
               None \<Rightarrow> []
             | Some lt \<Rightarrow> (let avg_loss = get_or (dict_avg_return lt) 0
                          in if \<bar>avg_loss\<bar> > 3 then [AvgLossAbove3 \<bar>avg_loss\<bar>] else [])))"

definition tier3_warnings :: "evaluator \<Rightarrow> validator_results \<Rightarrow> reason list" where
  "tier3_warnings self vr =
     (let daily_avg =
            (if ev_total_days self > 0
             then real (ev_total_trades self) / real_of_int (ev_total_days self) else 0);
          monthly_avg =
            (if ev_total_days self > 0
             then real (ev_total_trades self) / (real_of_int (ev_total_days self) / 30) else 0)
      in (if daily_avg > 1.0 then [DailyTradesAbove1 daily_avg] else [])
         @ (if monthly_avg < 2 then [MonthlyTradesBelow2 monthly_avg] else [])
         @ (case lookup (trade_analysis vr) key_3_1_win_loss_comparison of
              None \<Rightarrow> []
            | Some trade_data \<Rightarrow>
                (let rr_ratio = get_or (risk_reward_ratio trade_data) 0
                 in if rr_ratio < 1.5 \<and> rr_ratio > 0 then [WinLossRatioBelow1_5 rr_ratio] else []))
         @ (case lookup (timeseries vr) key_1_1_monthly of
              None \<Rightarrow> []
            | Some d \<Rightarrow> (let months = get_or (negative_months d) 0
                        in if months \<ge> 5 then [NegativeMonthsAtLeast5 months] else []))
         @ (case lookup (timeseries vr) key_1_1_monthly of
              None \<Rightarrow> []
            | Some d \<Rightarrow> (let monthly_cv = get_or (monthly_consistency d) 0
                        in if monthly_cv > 2.0 then [MonthlyDeviationAbove200 monthly_cv] else [])))"

text \<open>The final \<^verbatim>\<open>if / elif / else\<close> of \<^verbatim>\<open>check_disqualification_criteria\<close>.\<close>

definition final_verdict ::
    "reason list \<Rightarrow> reason list \<Rightarrow> reason list \<Rightarrow> status \<times> tier \<times> reason list" where
  "final_verdict t1 t2 t3 =
     (if t1 \<noteq> [] then (NoGo, Tier1, t1)
      else if t2 \<noteq> [] then (NoGo, Tier2, t2)
      else if t3 \<noteq> [] then (GoConditional, Tier3, t3)
      else (GoStrong, AllClear, []))"

text \<open>
  \<^verbatim>\<open>check_disqualification_criteria\<close>: the result and the object with the result stored.
  The first statement that can raise is \<^verbatim>\<open>drawdown.min()\<close>; the first read of
  \<^verbatim>\<open>self.validator_results\<close> comes after it.
\<close>

definition check_disqualification_criteria ::
    "evaluator \<Rightarrow> py_error + (disqualification \<times> evaluator)" where
  "check_disqualification_criteria self =
     (case max_drawdown self of
        Inl e \<Rightarrow> Inl e
      | Inr max_dd \<Rightarrow>
          (case ev_validator_results self of
             None \<Rightarrow> Inl AttributeError
           | Some vr \<Rightarrow>
               (case final_verdict (tier1_reasons self max_dd) (tier2_reasons vr)
                       (tier3_warnings self vr) of
                  (st, tr, rs) \<Rightarrow>
                    (let result =
                           \<lparr> dq_status = st, dq_tier = tr, dq_reasons = rs,
                             dq_total_trades = ev_total_trades self,
                             dq_win_rate = ev_win_rate self * 100,
                             dq_max_drawdown = max_dd,
                             dq_trading_period_days = ev_total_days self \<rparr>
                     in Inr (result, self \<lparr> ev_disqualification := Some result \<rparr>)))))"

subsection \<open>Final score\<close>

text \<open>The eight entries of \<^verbatim>\<open>scores\<close>, in the order in which the source fills them.\<close>

definition backtest_score :: "evaluator \<Rightarrow> real" where
  "backtest_score self =
     (let win_rate_score = min (ev_win_rate self * 100) 100;
          return_score =
            (if ev_total_return self > 0 then min (ev_total_return self / 40 * 100) 100 else 0);
          score = win_rate_score * 0.5 + return_score * 0.5
      in min score 100)"

definition walk_forward_score :: real where
  "walk_forward_score = 75"

definition stability_score :: "validator_results \<Rightarrow> real" where
  "stability_score vr =
     (case lookup (timeseries vr) key_1_1_monthly of
        Some ts_results \<Rightarrow>
          (let monthly_cv = get_or (monthly_consistency ts_results) 1
           in max 0 (100 * (1 - min monthly_cv 1)))
      | None \<Rightarrow> 50)"

definition confidence_score :: "validator_results \<Rightarrow> real" where
  "confidence_score vr =
     (case lookup (statistics vr) key_2_1_win_rate of
        Some stat_results \<Rightarrow>
          (let p = get_or (p_value stat_results) 0.5
           in if p < 0.001 then 100
              else if p < 0.01 then 90
              else if p < 0.05 then 80
              else if p < 0.1 then 60
              else 30)
      | None \<Rightarrow> 50)"

definition trade_score :: "validator_results \<Rightarrow> real" where
  "trade_score vr =
     (case lookup (trade_analysis vr) key_3_1_win_loss_comparison of
        Some trade_results \<Rightarrow> (let pf = get_or (profit_factor trade_results) 1 in min (pf * 50) 100)
      | None \<Rightarrow> 50)"

text \<open>
  \<^verbatim>\<open>margin / self.initial_capital\<close> divides two Python floats and raises on a zero
  divisor.
\<close>

definition extreme_score :: "evaluator \<Rightarrow> validator_results \<Rightarrow> py_error + real" where
  "extreme_score self vr =
     (case lookup (extreme_scenario vr) key_4_4_capital_shortage of
        Some extreme_results \<Rightarrow>
          (if get_or (dict_survived extreme_results) False
           then (let margin = get_or (dict_margin_of_safety extreme_results) (ev_initial_capital self)
                 in if ev_initial_capital self = 0 then Inl ZeroDivisionError
                    else Inr (min (margin / ev_initial_capital self * 100) 100))
           else Inr 0)
      | None \<Rightarrow> Inr 50)"

definition position_score :: "validator_results \<Rightarrow> real" where
  "position_score vr =
     (case lookup (position_sizing vr) key_7_3_risk_adjusted of
        Some pos_results \<Rightarrow> (let sharpe = get_or (sharpe_ratio pos_results) 0
                            in min (sharpe / 2.0 * 100) 100)
      | None \<Rightarrow> 50)"

definition advanced_score :: "validator_results \<Rightarrow> real" where
  "advanced_score vr =
     (case lookup (advanced_stats vr) key_8_1_profit_slope of
        Some adv_results \<Rightarrow> (let r2 = get_or (r_squared adv_results) 0 in min (r2 * 125) 100)
      | None \<Rightarrow> 50)"

definition scores_mean :: "scores \<Rightarrow> real" where
  "scores_mean sc =
     (score_backtest sc + score_walk_forward sc + score_timeseries sc + score_statistics sc
      + score_trade sc + score_extreme sc + score_position sc + score_advanced sc) / 8"

definition rating_of :: "real \<Rightarrow> rating" where
  "rating_of final =
     (if final \<ge> 85 then Excellent
      else if final \<ge> 75 then Good
      else if final \<ge> 60 then Fair
      else NeedsImprovement)"

text \<open>
  \<^verbatim>\<open>generate_final_score\<close>; \<open>now\<close> is what \<^verbatim>\<open>datetime.now()\<close> returns when the result
  is built.
\<close>

definition generate_final_score :: "real \<Rightarrow> evaluator \<Rightarrow> py_error + (final_score \<times> evaluator)" where
  "generate_final_score now self =
     (case ev_validator_results self of
        None \<Rightarrow> Inl AttributeError
      | Some vr \<Rightarrow>
          (case extreme_score self vr of
             Inl e \<Rightarrow> Inl e
           | Inr extreme \<Rightarrow>
               (let sc = \<lparr> score_backtest = backtest_score self,
                           score_walk_forward = walk_forward_score,
                           score_timeseries = stability_score vr,
                           score_statistics = confidence_score vr,
                           score_trade = trade_score vr,
                           score_extreme = extreme,
                           score_position = position_score vr,
                           score_advanced = advanced_score vr \<rparr>;
                    result = \<lparr> fs_scores = sc,
                               fs_final_score = scores_mean sc,
                               fs_rating = rating_of (scores_mean sc),
                               fs_timestamp = now \<rparr>
                in Inr (result, self \<lparr> ev_final_score := Some result \<rparr>))))"

text \<open>
  A category input is missing when the category key is absent or the analysis key is absent
  from the category dictionary (as in the empty dictionary stored for a failed analyzer).
\<close>

definition missing :: "'c option \<Rightarrow> ('c \<Rightarrow> 'd option) \<Rightarrow> bool" where
  "missing category key \<longleftrightarrow> lookup category key = None"

definition empty_results :: validator_results where
  "empty_results =
     \<lparr> timeseries = Some \<lparr> key_1_1_monthly = None, key_1_2_consecutive = None \<rparr>,
       statistics = Some \<lparr> key_2_1_win_rate = None \<rparr>,
       trade_analysis = Some \<lparr> key_3_1_win_loss_comparison = None \<rparr>,
       extreme_scenario = Some \<lparr> key_4_4_capital_shortage = None, key_5_2_bootstrap = None \<rparr>,
       position_sizing = Some \<lparr> key_7_3_risk_adjusted = None \<rparr>,
       advanced_stats = Some \<lparr> key_8_1_profit_slope = None \<rparr> \<rparr>"

subsection \<open>Running the validators and the report\<close>













subsection \<open>Comparing reports, and example inputs\<close>



definition example_evaluator :: evaluator where
  "example_evaluator =
     (evaluator_init [2, -1] None None 0 365 50) \<lparr> ev_validator_results := Some empty_results \<rparr>"


section \<open>Properties: streaks\<close>

lemma max_consecutive_loop_ge: "max_count \<le> max_consecutive_loop condition max_count current_count"
proof (induction condition arbitrary: max_count current_count)
  case Nil
  show ?case by simp
next
  case (Cons item rest)
  show ?case
  proof (cases item)
    case True
    have "max_count \<le> max max_count (current_count + 1)" by simp
    also have "\<dots> \<le> max_consecutive_loop rest (max max_count (current_count + 1)) (current_count + 1)"
      by (rule Cons.IH)
    finally show ?thesis using True by simp
  next
    case False
    then show ?thesis using Cons.IH [of max_count 0] by simp
  qed
qed

lemma sublist_replicate_le:
  assumes "sublist (replicate k True) (replicate c True)"
  shows "k \<le> c"
  using sublist_length_le [OF assms] by simp

lemma sublist_True_across_False:
  assumes "sublist (replicate k True) (ps @ False # ss)"
  shows "sublist (replicate k True) ps \<or> sublist (replicate k True) ss"
proof -
  from assms obtain us vs where eq: "ps @ False # ss = us @ replicate k True @ vs"
    by (auto simp: sublist_def)
  from eq show ?thesis
  proof (cases "length us + k \<le> length ps")
    case True
    have "take (length us + k) (ps @ False # ss)
          = take (length us + k) (us @ replicate k True @ vs)"
      by (simp only: eq)
    with True have "take (length us + k) ps = us @ replicate k True"
      by simp
    then have "ps = us @ replicate k True @ drop (length us + k) ps"
      by (metis append_assoc append_take_drop_id)
    then show ?thesis by (metis sublist_appendI)
  next
    case False
    then have lt: "length ps < length us + k" by simp
    have "length ps < length us \<or> length us \<le> length ps" by linarith
    then show ?thesis
    proof
      assume short: "length ps < length us"
      have "drop (Suc (length ps)) (ps @ False # ss)
            = drop (Suc (length ps)) (us @ replicate k True @ vs)"
        by (simp only: eq)
      with short have "ss = drop (Suc (length ps)) us @ replicate k True @ vs"
        by simp
      then show ?thesis by (metis sublist_appendI)
    next
      assume ge: "length us \<le> length ps"
      have "(ps @ False # ss) ! length ps = (us @ replicate k True @ vs) ! length ps"
        by (simp only: eq)
      moreover have "(ps @ False # ss) ! length ps = False" by simp
      moreover from ge lt have idx: "length ps - length us < k" by linarith
      from ge idx have
        "(us @ replicate k True @ vs) ! length ps = replicate k True ! (length ps - length us)"
        by (simp add: nth_append)
      moreover from idx have "replicate k True ! (length ps - length us) = True"
        by simp
      ultimately show ?thesis by simp
    qed
  qed
qed

lemma max_consecutive_loop_upper:
  assumes "current_count \<le> max_count"
    and "sublist (replicate k True) (replicate current_count True @ condition)"
  shows "k \<le> max_consecutive_loop condition max_count current_count"
  using assms
proof (induction condition arbitrary: max_count current_count)
  case Nil
  then have "k \<le> current_count" using sublist_replicate_le by simp
  with Nil show ?case by simp
next
  case (Cons item rest)
  show ?case
  proof (cases item)
    case True
    have shift: "replicate current_count True @ True # rest
                 = replicate (current_count + 1) True @ rest"
      by (simp add: replicate_append_same)
    have "k \<le> max_consecutive_loop rest (max max_count (current_count + 1)) (current_count + 1)"
    proof (rule Cons.IH)
      show "current_count + 1 \<le> max max_count (current_count + 1)" by simp
      show "sublist (replicate k True) (replicate (current_count + 1) True @ rest)"
        using Cons.prems(2) True shift by simp
    qed
    then show ?thesis using True by simp
  next
    case False
    with Cons.prems(2) have
      "sublist (replicate k True) (replicate current_count True)
       \<or> sublist (replicate k True) rest"
      using sublist_True_across_False by simp
    then show ?thesis
    proof
      assume "sublist (replicate k True) (replicate current_count True)"
      then have "k \<le> current_count" by (rule sublist_replicate_le)
      also have "\<dots> \<le> max_count" by (rule Cons.prems(1))
      also have "\<dots> \<le> max_consecutive_loop rest max_count 0"
        by (rule max_consecutive_loop_ge)
      finally show ?thesis using False by simp
    next
      assume "sublist (replicate k True) rest"
      then have "sublist (replicate k True) (replicate 0 True @ rest)" by simp
      then have "k \<le> max_consecutive_loop rest max_count 0"
        by (rule Cons.IH [rotated]) simp
      then show ?thesis using False by simp
    qed
  qed
qed

lemma max_consecutive_loop_attained:
  "max_consecutive_loop condition max_count current_count = max_count
   \<or> sublist (replicate (max_consecutive_loop condition max_count current_count) True)
        (replicate current_count True @ condition)"
proof (induction condition arbitrary: max_count current_count)
  case Nil
  show ?case by simp
next
  case (Cons item rest)
  show ?case
  proof (cases item)
    case True
    let ?m = "max max_count (current_count + 1)"
    let ?r = "max_consecutive_loop rest ?m (current_count + 1)"
    from True have item: "item = True" by simp
    have unf: "max_consecutive_loop (True # rest) max_count current_count = ?r"
      by simp
    have shift: "replicate (current_count + 1) True @ rest
                 = replicate current_count True @ True # rest"
      by (simp add: replicate_append_same)
    from Cons.IH [of ?m "current_count + 1"]
    have "?r = ?m \<or> sublist (replicate ?r True) (replicate (current_count + 1) True @ rest)" .
    then have "?r = max_count
               \<or> sublist (replicate ?r True) (replicate (current_count + 1) True @ rest)"
    proof
      assume eq: "?r = ?m"
      show ?thesis
      proof (cases "current_count + 1 \<le> max_count")
        case le: True
        then show ?thesis using eq by simp
      next
        case gt: False
        then have r: "?r = current_count + 1" using eq by simp
        have "sublist (replicate (current_count + 1) True)
                (replicate (current_count + 1) True @ rest)"
          by (metis sublist_appendI append_Nil)
        then have "sublist (replicate ?r True) (replicate (current_count + 1) True @ rest)"
          by (simp only: r)
        then show ?thesis ..
      qed
    next
      assume "sublist (replicate ?r True) (replicate (current_count + 1) True @ rest)"
      then show ?thesis ..
    qed
    then show ?thesis unfolding item unf shift .
  next
    case False
    let ?r = "max_consecutive_loop rest max_count 0"
    from False have item: "item = False" by simp
    have unf: "max_consecutive_loop (False # rest) max_count current_count = ?r"
      by simp
    from Cons.IH [of max_count 0]
    have "?r = max_count \<or> sublist (replicate ?r True) rest" by simp
    then have "?r = max_count
               \<or> sublist (replicate ?r True) (replicate current_count True @ False # rest)"
    proof
      assume "?r = max_count"
      then show ?thesis ..
    next
      assume "sublist (replicate ?r True) rest"
      then obtain us vs where "rest = us @ replicate ?r True @ vs"
        by (auto simp: sublist_def)
      then have "replicate current_count True @ False # rest
                 = (replicate current_count True @ False # us) @ replicate ?r True @ vs"
        by simp
      then have "sublist (replicate ?r True) (replicate current_count True @ False # rest)"
        by (metis sublist_appendI)
      then show ?thesis ..
    qed
    then show ?thesis unfolding item unf .
  qed
qed

lemma get_max_consecutive_has_run: "has_run condition (get_max_consecutive condition)"
proof (cases "condition = []")
  case True
  then show ?thesis by (simp add: has_run_def get_max_consecutive_def)
next
  case False
  from max_consecutive_loop_attained [of condition 0 0]
  have "max_consecutive_loop condition 0 0 = 0
        \<or> sublist (replicate (max_consecutive_loop condition 0 0) True) condition"
    by simp
  then have "sublist (replicate (max_consecutive_loop condition 0 0) True) condition"
    by auto
  with False show ?thesis by (simp add: has_run_def get_max_consecutive_def)
qed

lemma get_max_consecutive_longest:
  assumes "has_run condition k"
  shows "k \<le> get_max_consecutive condition"
proof (cases "condition = []")
  case True
  with assms show ?thesis by (simp add: has_run_def get_max_consecutive_def)
next
  case False
  from assms have "sublist (replicate k True) (replicate 0 True @ condition)"
    by (simp add: has_run_def)
  then have "k \<le> max_consecutive_loop condition 0 0"
    by (rule max_consecutive_loop_upper [rotated]) simp
  with False show ?thesis by (simp add: get_max_consecutive_def)
qed

text \<open>
  Claim C7. The streak analysis reports the longest run of consecutive winning trades
  (return \<open>> 0\<close>) and the longest run of consecutive losing trades (return \<open>\<le> 0\<close>, so a
  zero return counts as a loss): each reported length is the length of a run that occurs,
  and no longer run occurs. For the returns \<open>[1,1,-1,1,1,1,-1,-1,-1,-1]\<close> it reports 3
  consecutive wins and 4 consecutive losses.
\<close>

theorem streaks_longest_runs:
  "(let s = analyze_consecutive_trades rs;
        wins = map (\<lambda>r. r > 0) rs;
        losses = map (\<lambda>r. r \<le> 0) rs
    in has_run wins (max_consecutive_wins s)
       \<and> (\<forall>k. has_run wins k \<longrightarrow> k \<le> max_consecutive_wins s)
       \<and> has_run losses (max_consecutive_losses s)
       \<and> (\<forall>k. has_run losses k \<longrightarrow> k \<le> max_consecutive_losses s))
   \<and> max_consecutive_wins (analyze_consecutive_trades [1, 1, -1, 1, 1, 1, -1, -1, -1, -1]) = 3
   \<and> max_consecutive_losses (analyze_consecutive_trades [1, 1, -1, 1, 1, 1, -1, -1, -1, -1]) = 4"
proof -
  have ex1: "max_consecutive_wins (analyze_consecutive_trades [1, 1, -1, 1, 1, 1, -1, -1, -1, -1]) = 3"
    by (simp add: analyze_consecutive_trades_def get_max_consecutive_def Let_def)
  have ex2: "max_consecutive_losses (analyze_consecutive_trades [1, 1, -1, 1, 1, 1, -1, -1, -1, -1]) = 4"
    by (simp add: analyze_consecutive_trades_def get_max_consecutive_def Let_def)
  have gen: "has_run c (get_max_consecutive c) \<and> (\<forall>k. has_run c k \<longrightarrow> k \<le> get_max_consecutive c)" for c
    using get_max_consecutive_has_run get_max_consecutive_longest by blast
  show ?thesis
    using gen [of "map (\<lambda>r. r > 0) rs"] gen [of "map (\<lambda>r. r \<le> 0) rs"] ex1 ex2
    by (simp add: analyze_consecutive_trades_def Let_def)
qed

theorem streaks_longest_runs_witness:
  "has_run (map (\<lambda>r::real. r \<le> 0) [1, 0, 0, -2, 3]) 3
   \<and> max_consecutive_losses (analyze_consecutive_trades [1, 0, 0, -2, 3]) = 3
   \<and> max_consecutive_wins (analyze_consecutive_trades [1, 0, 0, -2, 3]) = 1"
proof -
  have run: "has_run (map (\<lambda>r::real. r \<le> 0) [1, 0, 0, -2, 3]) 3"
    unfolding has_run_def sublist_def
    by (rule exI [of _ "[False]"], rule exI [of _ "[False]"]) (simp add: numeral_3_eq_3)
  from streaks_longest_runs [of "[1, 0, 0, -2, 3]"]
  have up: "\<forall>k. has_run (map (\<lambda>r::real. r \<le> 0) [1, 0, 0, -2, 3]) k
              \<longrightarrow> k \<le> max_consecutive_losses (analyze_consecutive_trades [1, 0, 0, -2, 3])"
    by (simp add: Let_def)
  with run have "3 \<le> max_consecutive_losses (analyze_consecutive_trades [1, 0, 0, -2, 3])"
    by blast
  moreover have "max_consecutive_losses (analyze_consecutive_trades [1, 0, 0, -2, 3]) = 3"
    by (simp add: analyze_consecutive_trades_def get_max_consecutive_def Let_def)
  moreover have "max_consecutive_wins (analyze_consecutive_trades [1, 0, 0, -2, 3]) = 1"
    by (simp add: analyze_consecutive_trades_def get_max_consecutive_def Let_def)
  ultimately show ?thesis using run by simp
qed

section \<open>Properties: walk-forward split\<close>





section \<open>Properties: capital shortage\<close>






section \<open>Properties: trade classification\<close>

lemma mask_sum_map: "mask_sum (map p xs) = length (filter p xs)"
  by (induction xs) (simp_all add: mask_sum_def)

lemma bands_hit_size: "bands_hit size_bands r = (if r = 0 then 0 else 1)"
proof -
  consider "r \<le> -3 \<and> r < -3" | "-3 \<le> r \<and> r < -1" | "-1 \<le> r \<and> r < 0" | "r = 0"
    | "0 < r \<and> r \<le> 1" | "1 < r \<and> r \<le> 3" | "3 < r \<and> r \<le> 10" | "10 < r"
    by linarith
  then show ?thesis
    by cases
      (simp_all add: bands_hit_def size_bands_def tiny_profit_def small_profit_def
        medium_profit_def large_profit_def tiny_loss_def small_loss_def large_loss_def)
qed

lemma bands_hit_holding: "bands_hit holding_bands h = 1"
proof -
  consider "h < 1" | "1 \<le> h \<and> h < 24" | "24 \<le> h \<and> h < 168" | "168 \<le> h"
    by linarith
  then show ?thesis
    by cases
      (simp_all add: bands_hit_def holding_bands_def scalp_def short_term_def medium_term_def
        long_term_def)
qed

lemma sum_bands_hit:
  "(\<Sum>band \<leftarrow> bands. length (filter band xs)) = (\<Sum>x \<leftarrow> xs. bands_hit bands x)"
proof (induction xs)
  case Nil
  show ?case by (simp add: bands_hit_def)
next
  case (Cons x xs)
  have "(\<Sum>band \<leftarrow> bands. length (filter band (x # xs)))
        = (\<Sum>band \<leftarrow> bands. (if band x then 1 else 0) + length (filter band xs))"
    by (rule arg_cong [where f = sum_list]) simp
  also have "\<dots> = (\<Sum>band \<leftarrow> bands. if band x then 1 else 0)
                    + (\<Sum>band \<leftarrow> bands. length (filter band xs))"
    by (simp add: sum_list_addf)
  also have "(\<Sum>band \<leftarrow> bands. if band x then 1 else (0::nat)) = bands_hit bands x"
    by (induction bands) (simp_all add: bands_hit_def)
  finally show ?case using Cons.IH by simp
qed

lemma size_count_total_classify:
  "size_count_total (size_classification_out (classify_trades returns holding))
   = (\<Sum>band \<leftarrow> size_bands. length (filter band returns))"
  by (simp add: size_count_total_def classify_trades_def Let_def bucket_stats_def mask_sum_map
      size_bands_def)

lemma holding_count_total_classify:
  "holding_classification_out (classify_trades returns (Some hs)) = Some hc
   \<Longrightarrow> holding_count_total hc = (\<Sum>band \<leftarrow> holding_bands. length (filter band hs))"
  by (auto simp add: holding_count_total_def classify_trades_def Let_def bucket_stats_def
      mask_sum_map holding_bands_def)

lemma sum_list_ones: "(\<Sum>x \<leftarrow> xs. Suc 0) = length xs"
  by (induction xs) simp_all

lemma sum_list_indicator: "(\<Sum>x \<leftarrow> xs. if P x then 0 else (1::nat)) = length (filter (\<lambda>x. \<not> P x) xs)"
  by (induction xs) simp_all

text \<open>
  Claim C4, as amended. Every trade whose return is not zero falls into exactly one
  return-magnitude band; a trade with return exactly 0 falls into none (profit bands require
  \<open>> 0\<close>, loss bands \<open>< 0\<close>). So the counts of the seven size buckets add up to the number
  of trades with a non-zero return. Every holding duration falls into exactly one duration
  band, so when the holding column is present the four duration counts add up to the number
  of trades; without that column the duration classification is empty.
\<close>

theorem classification_bucket_counts:
  "(let c = classify_trades returns holding
    in size_count_total (size_classification_out c) = length (filter (\<lambda>r. r \<noteq> 0) returns)
       \<and> (\<forall>r. bands_hit size_bands r = (if r = 0 then 0 else 1))
       \<and> (holding = None \<longrightarrow> holding_classification_out c = None)
       \<and> (\<forall>hs. holding = Some hs \<longrightarrow>
             (\<exists>hc. holding_classification_out c = Some hc
                   \<and> holding_count_total hc = length hs))
       \<and> (\<forall>h. bands_hit holding_bands h = 1))"
proof -
  have size: "size_count_total (size_classification_out (classify_trades returns holding))
              = length (filter (\<lambda>r. r \<noteq> 0) returns)"
    by (simp only: size_count_total_classify sum_bands_hit bands_hit_size sum_list_indicator)
  have none: "holding = None \<longrightarrow> holding_classification_out (classify_trades returns holding) = None"
    by (simp add: classify_trades_def Let_def)
  have some: "\<forall>hs. holding = Some hs \<longrightarrow>
             (\<exists>hc. holding_classification_out (classify_trades returns holding) = Some hc
                   \<and> holding_count_total hc = length hs)"
  proof (intro allI impI)
    fix hs assume h: "holding = Some hs"
    obtain hc where hc: "holding_classification_out (classify_trades returns (Some hs)) = Some hc"
      by (simp add: classify_trades_def Let_def)
    from holding_count_total_classify [OF hc]
    have "holding_count_total hc = length hs"
      by (simp add: sum_bands_hit bands_hit_holding sum_list_ones)
    with hc h show "\<exists>hc. holding_classification_out (classify_trades returns holding) = Some hc
                   \<and> holding_count_total hc = length hs"
      by blast
  qed
  show ?thesis
    unfolding Let_def using size none some bands_hit_size bands_hit_holding by blast
qed

theorem classification_bucket_counts_witness:
  "size_count_total (size_classification_out (classify_trades [2, 0, -1, 10, -3] (Some [0.5, 1, 24, 168, 200]))) = 4
   \<and> bands_hit size_bands 0 = 0
   \<and> bands_hit size_bands 10 = 1
   \<and> (\<exists>hc. holding_classification_out (classify_trades [2, 0, -1, 10, -3] (Some [0.5, 1, 24, 168, 200])) = Some hc
           \<and> holding_count_total hc = 5)"
proof -
  note t = classification_bucket_counts [of "[2, 0, -1, 10, -3]" "Some [0.5, 1, 24, 168, 200]",
      unfolded Let_def]
  from t have "size_count_total (size_classification_out (classify_trades [2, 0, -1, 10, -3] (Some [0.5, 1, 24, 168, 200])))
               = length (filter (\<lambda>r::real. r \<noteq> 0) [2, 0, -1, 10, -3])"
    by blast
  then have a: "size_count_total (size_classification_out (classify_trades [2, 0, -1, 10, -3] (Some [0.5, 1, 24, 168, 200]))) = 4"
    by simp
  from t have b: "\<forall>r. bands_hit size_bands r = (if r = 0 then 0 else 1)" by blast
  from t have "\<exists>hc. holding_classification_out (classify_trades [2, 0, -1, 10, -3] (Some [0.5, 1, 24, 168, 200])) = Some hc
           \<and> holding_count_total hc = length [0.5, 1, 24, 168, 200::real]"
    by blast
  moreover have "length [0.5, 1, 24, 168, 200::real] = 5" by simp
  ultimately have c: "\<exists>hc. holding_classification_out (classify_trades [2, 0, -1, 10, -3] (Some [0.5, 1, 24, 168, 200])) = Some hc
           \<and> holding_count_total hc = 5"
    by (simp only:)
  from a b c show ?thesis by simp
qed

text \<open>
  The claim as stated fails for a table with a zero return: of the three trades
  \<open>[2, 0, -1]\<close> only two are counted.
\<close>

theorem classification_zero_return_counterexample:
  "size_count_total (size_classification_out (classify_trades [2, 0, -1] None)) = 2
   \<and> size_count_total (size_classification_out (classify_trades [2, 0, -1] None))
       \<noteq> length [2, 0, -1 :: real]
   \<and> bands_hit size_bands 0 = 0"
  by (simp add: size_count_total_def classify_trades_def Let_def bucket_stats_def mask_sum_def
      bands_hit_def size_bands_def tiny_profit_def small_profit_def
      medium_profit_def large_profit_def tiny_loss_def small_loss_def large_loss_def)

section \<open>Properties: Kelly criterion\<close>

lemma percent_round_trip: "map (\<lambda>r. r * 100) (map (\<lambda>r::real. r / 100) rs) = rs"
  by (induction rs) simp_all

lemma sum_list_positive:
  "xs \<noteq> [] \<Longrightarrow> \<forall>x \<in> set xs. (0::real) < x \<Longrightarrow> 0 < sum_list xs"
proof (induction xs)
  case Nil
  then show ?case by simp
next
  case (Cons x xs)
  show ?case
  proof (cases "xs = []")
    case True
    with Cons.prems show ?thesis by simp
  next
    case False
    with Cons have "0 < sum_list xs" by simp
    moreover from Cons.prems have "0 < x" by simp
    ultimately show ?thesis by simp
  qed
qed

lemma sum_list_abs_negative:
  "\<forall>x \<in> set xs. x < (0::real) \<Longrightarrow> sum_list (map abs xs) = - sum_list xs"
  by (induction xs) simp_all

lemma np_mean_wins_positive:
  assumes "\<exists>r \<in> set rs. 0 < r"
  shows "0 < np_mean (filter (\<lambda>r. 0 < r) rs)"
proof -
  let ?w = "filter (\<lambda>r. 0 < r) rs"
  from assms have ne: "?w \<noteq> []" by (simp add: filter_empty_conv)
  then have "0 < sum_list ?w" by (rule sum_list_positive) simp
  moreover from ne have "0 < real (length ?w)" by simp
  ultimately show ?thesis by (simp add: np_mean_def)
qed

lemma np_mean_losses_abs:
  "\<bar>np_mean (filter (\<lambda>r. r < 0) rs)\<bar> = np_mean (map abs (filter (\<lambda>r. r < 0) rs))"
proof -
  let ?l = "filter (\<lambda>r. r < 0) rs"
  have s: "sum_list (map abs ?l) = - sum_list ?l"
    by (rule sum_list_abs_negative) simp
  have "sum_list (map abs ?l) \<ge> 0" by (rule sum_list_nonneg) auto
  with s have "\<bar>sum_list ?l\<bar> = sum_list (map abs ?l)" by simp
  then show ?thesis by (simp add: np_mean_def abs_divide)
qed

lemma np_mean_losses_positive:
  assumes "\<exists>r \<in> set rs. r < 0"
  shows "0 < np_mean (map abs (filter (\<lambda>r. r < 0) rs))"
proof -
  let ?l = "map abs (filter (\<lambda>r. r < 0) rs)"
  from assms have ne: "?l \<noteq> []" by (simp add: filter_empty_conv)
  then have "0 < sum_list ?l" by (rule sum_list_positive) auto
  moreover from ne have "0 < real (length ?l)" by simp
  ultimately show ?thesis by (simp only: np_mean_def zero_less_divide_iff) simp
qed

lemma wins_losses_cover:
  assumes "0 \<notin> set rs"
  shows "length (filter (\<lambda>r. 0 < r) rs) + length (filter (\<lambda>r. r < 0) rs) = length (rs :: real list)"
proof -
  have "\<forall>x \<in> set rs. (x < 0) = (\<not> 0 < x)"
  proof
    fix x assume "x \<in> set rs"
    with assms have "x \<noteq> 0" by auto
    then show "(x < 0) = (\<not> 0 < x)" by linarith
  qed
  then have "filter (\<lambda>r. r < 0) rs = filter (\<lambda>r. \<not> 0 < r) rs"
    by (intro filter_cong) auto
  then show ?thesis by (simp only: sum_length_filter_compl)
qed

lemma calculate_kelly_unfold:
  "calculate_kelly rs =
     (let wins = filter (\<lambda>r. r > 0) rs;
          losses = filter (\<lambda>r. r < 0) rs;
          win_rate = (if length rs > 0 then real (length wins) / real (length rs) else 0);
          loss_rate = (if length rs > 0 then real (length losses) / real (length rs) else 0);
          avg_win = (if length wins > 0 then np_mean wins else 0);
          avg_loss = (if length losses > 0 then \<bar>np_mean losses\<bar> else 0);
          kelly_pct =
            (if avg_loss > 0
             then (let b = avg_win / avg_loss
                   in if b > 0 then (win_rate * b - loss_rate) / b else 0)
             else 0);
          fractional_kelly = kelly_pct / 2;
          required_trades = calculate_required_trades_for_kelly win_rate
      in \<lparr> full_kelly_pct = max 0 (kelly_pct * 100),
           fractional_kelly_pct = max 0 (fractional_kelly * 100),
           recommended_kelly_pct = max 0 (fractional_kelly * 100),
           kelly_win_rate = win_rate * 100,
           kelly_loss_rate = loss_rate * 100,
           kelly_avg_win = avg_win,
           kelly_avg_loss = avg_loss,
           win_loss_ratio = (if avg_loss > 0 then avg_win / avg_loss else 0),
           kelly_total_trades = length rs,
           kelly_required_trades = py_int required_trades,
           kelly_feasibility =
             (if real (length rs) \<ge> required_trades then Feasible else NotEnoughTrades) \<rparr>)"
  unfolding calculate_kelly_def Let_def percent_round_trip ..

lemma kelly_pct_value:
  assumes "rs \<noteq> []" "filter (\<lambda>r. r > 0) rs \<noteq> []" "filter (\<lambda>r. r < 0) rs \<noteq> []"
    and "0 < \<bar>np_mean (filter (\<lambda>r. r < 0) rs)\<bar>"
    and "0 < np_mean (filter (\<lambda>r. r > 0) rs) / \<bar>np_mean (filter (\<lambda>r. r < 0) rs)\<bar>"
  defines "f \<equiv> (real (length (filter (\<lambda>r. r > 0) rs)) / real (length rs)
                    * (np_mean (filter (\<lambda>r. r > 0) rs) / \<bar>np_mean (filter (\<lambda>r. r < 0) rs)\<bar>)
                   - real (length (filter (\<lambda>r. r < 0) rs)) / real (length rs))
                  / (np_mean (filter (\<lambda>r. r > 0) rs) / \<bar>np_mean (filter (\<lambda>r. r < 0) rs)\<bar>)"
  shows "full_kelly_pct (calculate_kelly rs) = max 0 (f * 100)"
    and "fractional_kelly_pct (calculate_kelly rs) = max 0 (f / 2 * 100)"
    and "recommended_kelly_pct (calculate_kelly rs) = max 0 (f / 2 * 100)"
  unfolding calculate_kelly_unfold Let_def kelly_stats.simps f_def
  using assms(1-5) by (simp_all only: length_greater_0_conv not_False_eq_True if_True)

lemma half_max: "0 \<le> f \<Longrightarrow> max 0 (f / 2 * 100) = max 0 (f * 100) / (2::real)"
  by (simp add: max_def)

lemma kelly_closed_form:
  assumes win: "\<exists>r \<in> set rs. 0 < r" and loss: "\<exists>r \<in> set rs. r < 0"
  defines "b \<equiv> np_mean (filter (\<lambda>r. 0 < r) rs) / np_mean (map abs (filter (\<lambda>r. r < 0) rs))"
  defines "f \<equiv> (real (length (filter (\<lambda>r. 0 < r) rs)) / real (length rs) * b
                  - real (length (filter (\<lambda>r. r < 0) rs)) / real (length rs)) / b"
  shows "0 < b"
    and "full_kelly_pct (calculate_kelly rs) = max 0 (f * 100)"
    and "fractional_kelly_pct (calculate_kelly rs) = max 0 (f / 2 * 100)"
    and "recommended_kelly_pct (calculate_kelly rs) = max 0 (f / 2 * 100)"
proof -
  let ?wins = "filter (\<lambda>r. 0 < r) rs"
  let ?losses = "filter (\<lambda>r. r < 0) rs"
  from win have rs: "rs \<noteq> []" by auto
  from win have wne: "?wins \<noteq> []" by (simp add: filter_empty_conv)
  from loss have lne: "?losses \<noteq> []" by (simp add: filter_empty_conv)
  have aw: "0 < np_mean ?wins" by (rule np_mean_wins_positive [OF win])
  have al: "0 < np_mean (map abs ?losses)" by (rule np_mean_losses_positive [OF loss])
  from aw al show b: "0 < b" unfolding b_def by (rule divide_pos_pos)
  have al': "0 < \<bar>np_mean ?losses\<bar>" using al by (simp only: np_mean_losses_abs)
  have b': "0 < np_mean ?wins / \<bar>np_mean ?losses\<bar>"
    using b unfolding b_def by (simp only: np_mean_losses_abs)
  note v = kelly_pct_value [OF rs wne lne al' b', unfolded np_mean_losses_abs, folded b_def,
      folded f_def]
  show "full_kelly_pct (calculate_kelly rs) = max 0 (f * 100)" by (rule v(1))
  show "fractional_kelly_pct (calculate_kelly rs) = max 0 (f / 2 * 100)" by (rule v(2))
  show "recommended_kelly_pct (calculate_kelly rs) = max 0 (f / 2 * 100)" by (rule v(3))
qed

lemma kelly_example_60_2_1:
  "full_kelly_pct (calculate_kelly [2, 2, 2, -1, -1]) = 40"
  "recommended_kelly_pct (calculate_kelly [2, 2, 2, -1, -1]) = 20"
proof -
  let ?rs = "[2, 2, 2, -1, -1] :: real list"
  have w: "\<exists>r \<in> set ?rs. 0 < r" by simp
  have l: "\<exists>r \<in> set ?rs. r < 0" by simp
  have fw: "filter (\<lambda>r. 0 < r) ?rs = [2, 2, 2]" by simp
  have fl: "filter (\<lambda>r. r < 0) ?rs = [-1, -1]" by simp
  have mw: "np_mean [2, 2, 2] = 2" by (simp add: np_mean_def)
  have ml: "np_mean (map abs [-1, -1]) = 1" by (simp add: np_mean_def)
  have f: "(real (length [2, 2, 2 :: real]) / real (length ?rs) * (2 / 1)
            - real (length [-1, -1 :: real]) / real (length ?rs)) / (2 / 1) = (2 / 5 :: real)"
    by simp
  note c = kelly_closed_form [OF w l, unfolded fw fl mw ml f]
  from c(2) show "full_kelly_pct (calculate_kelly ?rs) = 40" by simp
  from c(4) show "recommended_kelly_pct (calculate_kelly ?rs) = 20" by simp
qed

text \<open>
  Claim C5, as amended. For a table with at least one winning trade (return \<open>> 0\<close>) and one
  losing trade (return \<open>< 0\<close>), the Kelly analysis takes \<open>b = mean_win / mean_|loss|\<close> and
  \<open>f = (p * b - q) / b\<close>, where \<open>p\<close> is the share of winning trades and \<open>q\<close> the share of
  losing trades (return \<open>< 0\<close>); \<open>q = 1 - p\<close> when no trade has return 0. It reports
  \<open>max 0 (100 * f)\<close> as the full Kelly percentage and \<open>max 0 (100 * f / 2)\<close> as the
  fractional and recommended percentage, which is half of the reported full Kelly when
  \<open>f \<ge> 0\<close>. For win rate 0.6, average win 2 and average loss 1 (the returns
  \<open>[2, 2, 2, -1, -1]\<close>) the full Kelly is 40 and the recommended Kelly is 20.
\<close>

theorem kelly_formula:
  assumes win: "\<exists>r \<in> set rs. 0 < r" and loss: "\<exists>r \<in> set rs. r < 0"
  shows "(let k = calculate_kelly rs;
              wins = filter (\<lambda>r. 0 < r) rs;
              losses = filter (\<lambda>r. r < 0) rs;
              p = real (length wins) / real (length rs);
              q = real (length losses) / real (length rs);
              b = np_mean wins / np_mean (map abs losses);
              f = (p * b - q) / b
          in 0 < b
             \<and> full_kelly_pct k = max 0 (f * 100)
             \<and> fractional_kelly_pct k = max 0 (f / 2 * 100)
             \<and> recommended_kelly_pct k = max 0 (f / 2 * 100)
             \<and> (0 \<le> f \<longrightarrow> recommended_kelly_pct k = full_kelly_pct k / 2)
             \<and> (0 \<notin> set rs \<longrightarrow> q = 1 - p))
         \<and> full_kelly_pct (calculate_kelly [2, 2, 2, -1, -1]) = 40
         \<and> recommended_kelly_pct (calculate_kelly [2, 2, 2, -1, -1]) = 20"
proof -
  let ?wins = "filter (\<lambda>r. 0 < r) rs"
  let ?losses = "filter (\<lambda>r. r < 0) rs"
  let ?p = "real (length ?wins) / real (length rs)"
  let ?q = "real (length ?losses) / real (length rs)"
  let ?b = "np_mean ?wins / np_mean (map abs ?losses)"
  let ?f = "(?p * ?b - ?q) / ?b"
  from win have rs: "rs \<noteq> []" by auto
  note c = kelly_closed_form [OF win loss]
  have b: "0 < ?b" by (rule c(1))
  have full: "full_kelly_pct (calculate_kelly rs) = max 0 (?f * 100)" by (rule c(2))
  have frac: "fractional_kelly_pct (calculate_kelly rs) = max 0 (?f / 2 * 100)" by (rule c(3))
  have reco: "recommended_kelly_pct (calculate_kelly rs) = max 0 (?f / 2 * 100)" by (rule c(4))
  have half: "0 \<le> ?f \<longrightarrow> recommended_kelly_pct (calculate_kelly rs) = full_kelly_pct (calculate_kelly rs) / 2"
    unfolding full reco by (rule impI) (rule half_max)
  have compl: "0 \<notin> set rs \<longrightarrow> ?q = 1 - ?p"
  proof
    assume "0 \<notin> set rs"
    then have "real (length ?wins) + real (length ?losses) = real (length rs)"
      using wins_losses_cover [of rs] by linarith
    moreover from rs have "real (length rs) \<noteq> 0" by simp
    ultimately show "?q = 1 - ?p" by (simp add: field_simps)
  qed
  show ?thesis
    unfolding Let_def
    using b full frac reco half compl kelly_example_60_2_1 by (intro conjI)
qed

lemma kelly_zero_return_values:
  "full_kelly_pct (calculate_kelly [2, 0, -1]) = 50 / 3"
  "recommended_kelly_pct (calculate_kelly [2, 0, -1]) = 25 / 3"
  "spec_full_kelly_pct [2, 0, -1] = 0"
  "spec_recommended_kelly_pct [2, 0, -1] = 0"
proof -
  let ?rs = "[2, 0, -1] :: real list"
  have w: "\<exists>r \<in> set ?rs. 0 < r" by simp
  have l: "\<exists>r \<in> set ?rs. r < 0" by simp
  have fw: "filter (\<lambda>r. 0 < r) ?rs = [2]" by simp
  have fl: "filter (\<lambda>r. r < 0) ?rs = [-1]" by simp
  have mw: "np_mean [2] = 2" by (simp add: np_mean_def)
  have ml: "np_mean (map abs [-1]) = 1" by (simp add: np_mean_def)
  have f: "(real (length [2 :: real]) / real (length ?rs) * (2 / 1)
            - real (length [-1 :: real]) / real (length ?rs)) / (2 / 1) = (1 / 6 :: real)"
    by simp
  note c = kelly_closed_form [OF w l, unfolded fw fl mw ml f]
  from c(2) show "full_kelly_pct (calculate_kelly ?rs) = 50 / 3" by simp
  from c(4) show "recommended_kelly_pct (calculate_kelly ?rs) = 25 / 3" by simp
  show s: "spec_full_kelly_pct ?rs = 0"
    unfolding spec_full_kelly_pct_def Let_def fw fl mw ml by simp
  show "spec_recommended_kelly_pct ?rs = 0"
    unfolding spec_recommended_kelly_pct_def s by simp
qed

theorem kelly_formula_witness:
  "(\<exists>r \<in> set [1, -1, -1 :: real]. 0 < r) \<and> (\<exists>r \<in> set [1, -1, -1 :: real]. r < 0)
   \<and> full_kelly_pct (calculate_kelly [1, -1, -1]) = 0
   \<and> recommended_kelly_pct (calculate_kelly [1, -1, -1]) = 0"
proof -
  let ?rs = "[1, -1, -1] :: real list"
  have w: "\<exists>r \<in> set ?rs. 0 < r" by simp
  have l: "\<exists>r \<in> set ?rs. r < 0" by simp
  have fw: "filter (\<lambda>r. 0 < r) ?rs = [1]" by simp
  have fl: "filter (\<lambda>r. r < 0) ?rs = [-1, -1]" by simp
  have mw: "np_mean [1] = 1" by (simp add: np_mean_def)
  have ml: "np_mean (map abs [-1, -1]) = 1" by (simp add: np_mean_def)
  have f: "(real (length [1 :: real]) / real (length ?rs) * (1 / 1)
            - real (length [-1, -1 :: real]) / real (length ?rs)) / (1 / 1) = (- 1 / 3 :: real)"
    by simp
  note t = kelly_formula [OF w l, unfolded Let_def fw fl mw ml f]
  from t have "full_kelly_pct (calculate_kelly ?rs) = max 0 (- 1 / 3 * 100)" by (rule conjunct1 [OF conjunct2 [OF conjunct1]])
  then have a: "full_kelly_pct (calculate_kelly ?rs) = 0" by simp
  from t have "recommended_kelly_pct (calculate_kelly ?rs) = max 0 (- 1 / 3 / 2 * 100)"
    by blast
  then have b: "recommended_kelly_pct (calculate_kelly ?rs) = 0" by simp
  from w l a b show ?thesis by (intro conjI)
qed

text \<open>
  The claim as stated, with \<open>q = 1 - p\<close>, fails for a table with a zero return: for
  \<open>[2, 0, -1]\<close> the stated formula gives 0 and the code reports \<open>50/3\<close>.
\<close>

theorem kelly_loss_rate_counterexample:
  "(\<exists>r \<in> set [2, 0, -1 :: real]. 0 < r) \<and> (\<exists>r \<in> set [2, 0, -1 :: real]. r < 0)
   \<and> spec_full_kelly_pct [2, 0, -1] = 0
   \<and> full_kelly_pct (calculate_kelly [2, 0, -1]) = 50 / 3
   \<and> full_kelly_pct (calculate_kelly [2, 0, -1]) \<noteq> spec_full_kelly_pct [2, 0, -1]
   \<and> recommended_kelly_pct (calculate_kelly [2, 0, -1]) \<noteq> spec_recommended_kelly_pct [2, 0, -1]"
  by (simp add: kelly_zero_return_values)

section \<open>Properties: win-rate significance\<close>




lemma required_sample_size_at_half:
  assumes "norm_ppf (1 - 0.05 / 2) + norm_ppf (1 - 0.20) \<noteq> 0"
  shows "calculate_required_sample_size norm_ppf (1 / 2) 0.5 0.05 0.20 = PosInf"
proof -
  let ?z = "norm_ppf (1 - 0.05 / 2) + norm_ppf (1 - 0.20)"
  from assms have "0 < ?z\<^sup>2" by simp
  then have "0 < ?z\<^sup>2 * (2 * ((1 / 2 + 0.5) / 2) * (1 - (1 / 2 + 0.5) / 2))" by simp
  then show ?thesis
    unfolding calculate_required_sample_size_def Let_def np_true_divide_def by simp
qed

text \<open>
  Claim C3. The claim asks that a win rate of exactly 0.5 is handled without a fault. In the
  source the division by \<open>(p1 - p2)\<^sup>2 = 0\<close> is a numpy float division: it is not guarded,
  raises nothing and yields infinity, which \<^verbatim>\<open>_calculate_required_sample_size\<close>
  returns. The caller then converts this value with \<^verbatim>\<open>int(required_trades)\<close>, which raises
  OverflowError: for every non-empty table with win rate exactly 0.5 the win-rate analysis
  returns no result.
\<close>

theorem win_rate_half_raises:
  assumes half: "2 * length (filter (\<lambda>r. r > 0) returns) = length returns"
    and nonempty: "returns \<noteq> []"
    and z: "norm_ppf (1 - 0.05 / 2) + norm_ppf (1 - 0.20) \<noteq> 0"
  shows "calculate_required_sample_size norm_ppf
           (real (length (filter (\<lambda>r. r > 0) returns)) / real (length returns)) 0.5 0.05 0.20
         = PosInf
         \<and> test_win_rate_confidence norm_ppf binom_sf returns confidence_level
           = Inl OverflowError"
proof -
  let ?w = "length (filter (\<lambda>r. r > 0) returns)"
  let ?n = "length returns"
  from nonempty have n: "0 < ?n" by simp
  from half have "2 * real ?w = real ?n" by (metis of_nat_mult of_nat_numeral)
  with n have wr: "real ?w / real ?n = 1 / 2" by (simp add: field_simps)
  have req: "calculate_required_sample_size norm_ppf (real ?w / real ?n) 0.5 0.05 0.20 = PosInf"
    unfolding wr by (rule required_sample_size_at_half [OF z])
  obtain lo hi where ci: "wilson_ci norm_ppf ?w ?n confidence_level = Inr (lo, hi)"
    using n by (simp add: wilson_ci_def Let_def)
  from req have req':
    "calculate_required_sample_size norm_ppf (real ?w / real ?n) (1 / 2) (1 / 20) (1 / 5) = PosInf"
    by simp
  have raised: "test_win_rate_confidence norm_ppf binom_sf returns confidence_level = Inl OverflowError"
    unfolding test_win_rate_confidence_def Let_def ci using n by (simp add: req')
  from req raised show ?thesis by (rule conjI)
qed

theorem win_rate_half_raises_witness:
  "calculate_required_sample_size (\<lambda>q. 1) (real (length (filter (\<lambda>r. r > 0) [1, -1 :: real])) / real (length [1, -1 :: real])) 0.5 0.05 0.20 = PosInf
   \<and> test_win_rate_confidence (\<lambda>q. 1) (\<lambda>k n p. 1) [1, -1] 0.95 = Inl OverflowError"
proof -
  have h: "2 * length (filter (\<lambda>r. r > 0) [1, -1 :: real]) = length [1, -1 :: real]" by simp
  have ne: "[1, -1 :: real] \<noteq> []" by simp
  have z: "(\<lambda>q::real. 1::real) (1 - 0.05 / 2) + (\<lambda>q::real. 1::real) (1 - 0.20) \<noteq> 0" by simp
  from win_rate_half_raises [of "[1, -1]" "\<lambda>q. 1", OF h ne z]
  show ?thesis .
qed

section \<open>Properties: disqualification verdict\<close>

lemma final_verdict_cases:
  "final_verdict t1 t2 t3 = (st, tr, rs) \<Longrightarrow>
     (t1 \<noteq> [] \<longrightarrow> st = NoGo \<and> tr = Tier1 \<and> rs = t1)
     \<and> (t1 = [] \<and> t2 \<noteq> [] \<longrightarrow> st = NoGo \<and> tr = Tier2 \<and> rs = t2)
     \<and> (t1 = [] \<and> t2 = [] \<and> t3 \<noteq> [] \<longrightarrow> st = GoConditional \<and> tr = Tier3 \<and> rs = t3)
     \<and> (t1 = [] \<and> t2 = [] \<and> t3 = [] \<longrightarrow> st = GoStrong \<and> tr = AllClear \<and> rs = [])"
  by (auto simp: final_verdict_def split: if_splits)

lemma tier1_reasons_tier: "\<forall>r \<in> set (tier1_reasons self dd). reason_tier r = Tier1"
  by (auto simp: tier1_reasons_def split: if_splits)

lemma tier2_reasons_tier: "\<forall>r \<in> set (tier2_reasons vr). reason_tier r = Tier2"
  by (auto simp: tier2_reasons_def Let_def split: option.splits if_splits)

lemma tier3_warnings_tier: "\<forall>r \<in> set (tier3_warnings self vr). reason_tier r = Tier3"
  by (auto simp: tier3_warnings_def Let_def split: option.splits if_splits)

lemma tier1_reasons_nonempty:
  "tier1_reasons self dd \<noteq> [] \<longleftrightarrow>
     ev_total_trades self < 30 \<or> ev_win_rate self < 0.5 \<or> dd < - 0.5 \<or> ev_total_days self < 180"
  by (simp add: tier1_reasons_def)

lemma check_disqualification_result:
  assumes "max_drawdown self = Inr dd" and "ev_validator_results self = Some vr"
  shows "\<exists>d. check_disqualification_criteria self = Inr (d, self \<lparr> ev_disqualification := Some d \<rparr>)
             \<and> (dq_status d, dq_tier d, dq_reasons d)
                 = final_verdict (tier1_reasons self dd) (tier2_reasons vr) (tier3_warnings self vr)
             \<and> dq_max_drawdown d = dd"
proof -
  obtain st tr rs where v:
    "final_verdict (tier1_reasons self dd) (tier2_reasons vr) (tier3_warnings self vr) = (st, tr, rs)"
    by (metis prod_cases3)
  show ?thesis
    unfolding check_disqualification_criteria_def assms by (simp add: Let_def v)
qed

lemma drawdown_series_length: "length (drawdown_series curve) = length curve"
proof -
  have "length (maximum_accumulate_from m xs) = length xs" for m xs
    by (induction xs arbitrary: m) simp_all
  then have "length (np_maximum_accumulate curve) = length curve"
    by (cases curve) simp_all
  then show ?thesis by (simp add: drawdown_series_def)
qed

lemma cumprod_from_length: "length (cumprod_from acc xs) = length xs"
  by (induction xs arbitrary: acc) simp_all

lemma np_min_returns: "xs \<noteq> [] \<Longrightarrow> \<exists>m. np_min xs = Inr m"
  by (cases xs) simp_all

lemma max_drawdown_returns:
  assumes "ev_return_pct self \<noteq> []"
    and "\<forall>c. ev_cumulative_pct self = Some c \<longrightarrow> length c = length (ev_return_pct self)"
  shows "\<exists>dd. max_drawdown self = Inr dd"
proof -
  have "length (capital_curve self) = length (ev_return_pct self)"
    using assms(2)
    by (simp add: capital_curve_def np_cumprod_def cumprod_from_length split: option.splits)
  with assms(1) have "drawdown_series (capital_curve self) \<noteq> []"
    by (metis drawdown_series_length length_0_conv)
  then show ?thesis unfolding max_drawdown_def by (rule np_min_returns)
qed

text \<open>
  Tier precedence for every non-empty table whose validators have run: the verdict is
  produced, it reports the first non-empty tier with exactly that tier's reasons, and every
  reported reason belongs to the reported tier.
\<close>

lemma disqualification_precedence:
  assumes nonempty: "ev_return_pct self \<noteq> []"
    and column: "\<forall>c. ev_cumulative_pct self = Some c \<longrightarrow> length c = length (ev_return_pct self)"
    and ran: "ev_validator_results self = Some vr"
  shows "\<exists>d dd. check_disqualification_criteria self = Inr (d, self \<lparr> ev_disqualification := Some d \<rparr>)
           \<and> max_drawdown self = Inr dd
           \<and> (let t1 = tier1_reasons self dd; t2 = tier2_reasons vr; t3 = tier3_warnings self vr
              in (t1 \<noteq> [] \<longrightarrow> dq_status d = NoGo \<and> dq_tier d = Tier1 \<and> dq_reasons d = t1)
               \<and> (t1 = [] \<and> t2 \<noteq> [] \<longrightarrow> dq_status d = NoGo \<and> dq_tier d = Tier2 \<and> dq_reasons d = t2)
               \<and> (t1 = [] \<and> t2 = [] \<and> t3 \<noteq> [] \<longrightarrow>
                    dq_status d = GoConditional \<and> dq_tier d = Tier3 \<and> dq_reasons d = t3)
               \<and> (t1 = [] \<and> t2 = [] \<and> t3 = [] \<longrightarrow>
                    dq_status d = GoStrong \<and> dq_tier d = AllClear \<and> dq_reasons d = [])
               \<and> (dq_tier d \<noteq> AllClear \<longrightarrow> dq_reasons d \<noteq> [])
               \<and> (\<forall>r \<in> set (dq_reasons d). reason_tier r = dq_tier d))"
proof -
  from max_drawdown_returns [OF nonempty column] obtain dd where dd: "max_drawdown self = Inr dd"
    by blast
  from check_disqualification_result [OF dd ran] obtain d where
    d: "check_disqualification_criteria self = Inr (d, self \<lparr> ev_disqualification := Some d \<rparr>)"
    and v: "(dq_status d, dq_tier d, dq_reasons d)
            = final_verdict (tier1_reasons self dd) (tier2_reasons vr) (tier3_warnings self vr)"
    by blast
  note c = final_verdict_cases [OF v [symmetric]]
  have tiers: "\<forall>r \<in> set (dq_reasons d). reason_tier r = dq_tier d"
    using c tier1_reasons_tier [of self dd] tier2_reasons_tier [of vr]
      tier3_warnings_tier [of self vr]
    by (metis empty_iff list.set(1))
  have ne: "dq_tier d \<noteq> AllClear \<longrightarrow> dq_reasons d \<noteq> []"
    using c by (metis tier.distinct(5) tier.distinct(9) tier.distinct(11))
  show ?thesis
    unfolding Let_def using d dd c tiers ne by blast
qed

text \<open>
  Claim C1. The claim asks for a verdict by strict tier precedence for every trade table.
  For every non-empty table the verdict is produced and follows the precedence
  (\<open>disqualification_precedence\<close> above). For the empty table no verdict is produced: the
  table has fewer than 30 trades, a Tier 1 condition, but \<^verbatim>\<open>drawdown.min()\<close> on the empty
  drawdown array raises ValueError before the verdict is built.
\<close>

theorem empty_table_no_verdict:
  "ev_total_trades (evaluator_init [] None exit_date start_date end_date capital) < 30
   \<and> tier1_reasons (evaluator_init [] None exit_date start_date end_date capital) dd \<noteq> []
   \<and> check_disqualification_criteria
        ((evaluator_init [] None exit_date start_date end_date capital)
           \<lparr> ev_validator_results := Some vr \<rparr>)
      = Inl ValueError"
proof -
  let ?ev = "evaluator_init [] None exit_date start_date end_date capital"
  have n: "ev_total_trades ?ev < 30" by (simp add: evaluator_init_def Let_def)
  then have t1: "tier1_reasons ?ev dd \<noteq> []" by (simp add: tier1_reasons_nonempty)
  have "capital_curve (?ev \<lparr> ev_validator_results := Some vr \<rparr>) = []"
    by (simp add: capital_curve_def evaluator_init_def Let_def np_cumprod_def)
  then have "max_drawdown (?ev \<lparr> ev_validator_results := Some vr \<rparr>) = Inl ValueError"
    by (simp add: max_drawdown_def drawdown_series_def)
  then have "check_disqualification_criteria (?ev \<lparr> ev_validator_results := Some vr \<rparr>) = Inl ValueError"
    by (simp add: check_disqualification_criteria_def)
  with n t1 show ?thesis by (intro conjI)
qed

section \<open>Properties: final score\<close>

lemma extreme_score_returns:
  assumes "ev_initial_capital self \<noteq> 0"
  shows "\<exists>x. extreme_score self vr = Inr x"
  using assms by (simp add: extreme_score_def Let_def split: option.splits)

lemma extreme_score_missing:
  "missing (extreme_scenario vr) key_4_4_capital_shortage \<Longrightarrow> extreme_score self vr = Inr 50"
  by (simp add: extreme_score_def missing_def)

lemma generate_final_score_result:
  assumes "ev_validator_results self = Some vr" and "extreme_score self vr = Inr x"
  shows "\<exists>fs. generate_final_score now self = Inr (fs, self \<lparr> ev_final_score := Some fs \<rparr>)
           \<and> fs_scores fs =
               \<lparr> score_backtest = backtest_score self,
                 score_walk_forward = walk_forward_score,
                 score_timeseries = stability_score vr,
                 score_statistics = confidence_score vr,
                 score_trade = trade_score vr,
                 score_extreme = x,
                 score_position = position_score vr,
                 score_advanced = advanced_score vr \<rparr>
           \<and> fs_final_score fs = scores_mean (fs_scores fs)
           \<and> fs_rating fs = rating_of (scores_mean (fs_scores fs))
           \<and> fs_timestamp fs = now"
  unfolding generate_final_score_def by (simp add: Let_def assms)

text \<open>
  Claim C2, as amended. Once the validators have run (and the initial capital is not zero),
  the final score is produced, and each of the six categories computed from validator
  results (time-series stability, statistical confidence, trade characteristics, extreme
  scenario, position optimisation, advanced statistics) is the neutral 50 when its category
  key or its analysis key is absent. The Walk-Forward category is the constant 75, whatever
  the inputs, and the backtest category is always computed from the win rate and the total
  return.
\<close>

theorem final_score_missing_defaults:
  assumes ran: "ev_validator_results self = Some vr"
    and capital: "ev_initial_capital self \<noteq> 0"
  shows "\<exists>fs self'. generate_final_score now self = Inr (fs, self')
           \<and> score_walk_forward (fs_scores fs) = 75
           \<and> score_backtest (fs_scores fs) = backtest_score self
           \<and> (missing (timeseries vr) key_1_1_monthly \<longrightarrow> score_timeseries (fs_scores fs) = 50)
           \<and> (missing (statistics vr) key_2_1_win_rate \<longrightarrow> score_statistics (fs_scores fs) = 50)
           \<and> (missing (trade_analysis vr) key_3_1_win_loss_comparison \<longrightarrow>
                score_trade (fs_scores fs) = 50)
           \<and> (missing (extreme_scenario vr) key_4_4_capital_shortage \<longrightarrow>
                score_extreme (fs_scores fs) = 50)
           \<and> (missing (position_sizing vr) key_7_3_risk_adjusted \<longrightarrow>
                score_position (fs_scores fs) = 50)
           \<and> (missing (advanced_stats vr) key_8_1_profit_slope \<longrightarrow>
                score_advanced (fs_scores fs) = 50)"
proof -
  from extreme_score_returns [OF capital] obtain x where x: "extreme_score self vr = Inr x"
    by blast
  from generate_final_score_result [OF ran x] obtain fs where
    fs: "generate_final_score now self = Inr (fs, self \<lparr> ev_final_score := Some fs \<rparr>)"
    and sc: "fs_scores fs =
               \<lparr> score_backtest = backtest_score self,
                 score_walk_forward = walk_forward_score,
                 score_timeseries = stability_score vr,
                 score_statistics = confidence_score vr,
                 score_trade = trade_score vr,
                 score_extreme = x,
                 score_position = position_score vr,
                 score_advanced = advanced_score vr \<rparr>"
    by blast
  have wf: "score_walk_forward (fs_scores fs) = 75" by (simp add: sc walk_forward_score_def)
  have bt: "score_backtest (fs_scores fs) = backtest_score self" by (simp add: sc)
  have ts: "missing (timeseries vr) key_1_1_monthly \<longrightarrow> score_timeseries (fs_scores fs) = 50"
    by (simp add: sc stability_score_def missing_def)
  have st: "missing (statistics vr) key_2_1_win_rate \<longrightarrow> score_statistics (fs_scores fs) = 50"
    by (simp add: sc confidence_score_def missing_def)
  have ta: "missing (trade_analysis vr) key_3_1_win_loss_comparison \<longrightarrow>
              score_trade (fs_scores fs) = 50"
    by (simp add: sc trade_score_def missing_def)
  have ex: "missing (extreme_scenario vr) key_4_4_capital_shortage \<longrightarrow>
              score_extreme (fs_scores fs) = 50"
    using x extreme_score_missing [of vr self] by (auto simp: sc)
  have ps: "missing (position_sizing vr) key_7_3_risk_adjusted \<longrightarrow>
              score_position (fs_scores fs) = 50"
    by (simp add: sc position_score_def missing_def)
  have ad: "missing (advanced_stats vr) key_8_1_profit_slope \<longrightarrow>
              score_advanced (fs_scores fs) = 50"
    by (simp add: sc advanced_score_def missing_def)
  from fs wf bt ts st ta ex ps ad show ?thesis by blast
qed

lemma empty_results_missing:
  "missing (timeseries empty_results) key_1_1_monthly"
  "missing (statistics empty_results) key_2_1_win_rate"
  "missing (trade_analysis empty_results) key_3_1_win_loss_comparison"
  "missing (extreme_scenario empty_results) key_4_4_capital_shortage"
  "missing (position_sizing empty_results) key_7_3_risk_adjusted"
  "missing (advanced_stats empty_results) key_8_1_profit_slope"
  by (simp_all add: missing_def lookup_def empty_results_def)

theorem final_score_missing_defaults_witness:
  "\<exists>fs self'. generate_final_score 0 example_evaluator = Inr (fs, self')
      \<and> score_walk_forward (fs_scores fs) = 75
      \<and> score_timeseries (fs_scores fs) = 50
      \<and> score_statistics (fs_scores fs) = 50
      \<and> score_trade (fs_scores fs) = 50
      \<and> score_extreme (fs_scores fs) = 50
      \<and> score_position (fs_scores fs) = 50
      \<and> score_advanced (fs_scores fs) = 50"
proof -
  have ran: "ev_validator_results example_evaluator = Some empty_results"
    by (simp add: example_evaluator_def)
  have capital: "ev_initial_capital example_evaluator \<noteq> 0"
    by (simp add: example_evaluator_def evaluator_init_def Let_def)
  from final_score_missing_defaults [OF ran capital, of 0] empty_results_missing
  show ?thesis by blast
qed

text \<open>
  The claim as stated fails for the Walk-Forward category: with every validator result
  missing its score is 75, not 50.
\<close>

theorem walk_forward_default_counterexample:
  "\<exists>fs self'. generate_final_score 0 example_evaluator = Inr (fs, self')
      \<and> score_walk_forward (fs_scores fs) = 75
      \<and> score_walk_forward (fs_scores fs) \<noteq> 50"
proof -
  have ran: "ev_validator_results example_evaluator = Some empty_results"
    by (simp add: example_evaluator_def)
  have x: "extreme_score example_evaluator empty_results = Inr 50"
    by (rule extreme_score_missing) (rule empty_results_missing)
  from generate_final_score_result [OF ran x, of 0] obtain fs where
    fs: "generate_final_score 0 example_evaluator
         = Inr (fs, example_evaluator \<lparr> ev_final_score := Some fs \<rparr>)"
    and sc: "score_walk_forward (fs_scores fs) = walk_forward_score"
    by auto
  from sc have "score_walk_forward (fs_scores fs) = 75 \<and> score_walk_forward (fs_scores fs) \<noteq> 50"
    by (simp add: walk_forward_score_def)
  with fs show ?thesis by blast
qed

section \<open>Properties: comprehensive report\<close>












end
